theory Spec2Isabelle
  imports Complex_Main "HOL-Library.Sublist"
begin

section \<open>JavaScript values\<close>

text \<open>
  A shallow embedding of \<^verbatim>\<open>server.js\<close>, the Express product API. The values that travel
  through the handlers are JSON values: the body left on \<^verbatim>\<open>req.body\<close> by the JSON body
  parser and the stored products. A property that is absent reads as \<^verbatim>\<open>undefined\<close>, so a
  property read is a \<open>json option\<close> and \<open>None\<close> is \<^verbatim>\<open>undefined\<close>.

  Numbers are rationals: a JSON body holds no NaN. A string is the list of its characters,
  and the model covers ASCII strings: lower-casing changes the ASCII letters and white
  space is the ASCII white space.
\<close>

datatype json =
    JNull
  | JBool bool
  | JNum rat
  | JStr string
  | JArr "json list"
  | JObj "(string \<times> json) list"

text \<open>An object at the top level (a request body, a product) is a map from its keys.\<close>

type_synonym object = "string \<rightharpoonup> json"

text \<open>\<^verbatim>\<open>!v\<close> is \<open>\<not> truthy v\<close>.\<close>

fun truthy :: "json option \<Rightarrow> bool" where
  "truthy None = False"
| "truthy (Some JNull) = False"
| "truthy (Some (JBool b)) = b"
| "truthy (Some (JNum n)) = (n \<noteq> 0)"
| "truthy (Some (JStr s)) = (s \<noteq> [])"
| "truthy (Some (JArr xs)) = True"
| "truthy (Some (JObj kvs)) = True"

fun typeof :: "json option \<Rightarrow> string" where
  "typeof None = ''undefined''"
| "typeof (Some JNull) = ''object''"
| "typeof (Some (JBool b)) = ''boolean''"
| "typeof (Some (JNum n)) = ''number''"
| "typeof (Some (JStr s)) = ''string''"
| "typeof (Some (JArr xs)) = ''object''"
| "typeof (Some (JObj kvs)) = ''object''"

text \<open>
  A value of the query string, as the query parser leaves it on \<^verbatim>\<open>req.query\<close>: a string,
  or an array or an object when a key is repeated or written with brackets.
\<close>

datatype qvalue =
    QString string
  | QArray "qvalue list"
  | QObject "(string \<times> qvalue) list"

fun truthy_q :: "qvalue option \<Rightarrow> bool" where
  "truthy_q None = False"
| "truthy_q (Some (QString s)) = (s \<noteq> [])"
| "truthy_q (Some (QArray xs)) = True"
| "truthy_q (Some (QObject kvs)) = True"

section \<open>Custom error classes (server.js, lines 26-49)\<close>

text \<open>
  The three classes of the source carry their \<^verbatim>\<open>statusCode\<close>; \<open>ValidationError\<close> also
  carries \<^verbatim>\<open>details\<close>, which defaults to the empty array. \<open>OtherError\<close> is any other
  value that reaches the error handler: its \<^verbatim>\<open>statusCode\<close> property, when it has one, and
  its message. A \<^verbatim>\<open>TypeError\<close> thrown by the engine has no \<^verbatim>\<open>statusCode\<close>.
\<close>

datatype failure =
    NotFoundError string
  | ValidationError string "string list"
  | AuthenticationError string
  | OtherError "nat option" string

definition TypeError :: "string \<Rightarrow> failure" where
  "TypeError msg = OtherError None msg"

fun statusCode :: "failure \<Rightarrow> nat option" where
  "statusCode (NotFoundError m) = Some 404"
| "statusCode (ValidationError m ds) = Some 400"
| "statusCode (AuthenticationError m) = Some 401"
| "statusCode (OtherError sc m) = sc"

fun message :: "failure \<Rightarrow> string" where
  "message (NotFoundError m) = m"
| "message (ValidationError m ds) = m"
| "message (AuthenticationError m) = m"
| "message (OtherError sc m) = m"

section \<open>Responses\<close>

text \<open>
  The object built by the list handler (lines 159-164). \<^verbatim>\<open>totalPages\<close> is a quotient
  rounded up, which is NaN or Infinity when the divisor is NaN or 0; \<^verbatim>\<open>currentPage\<close> is what
  \<^verbatim>\<open>parseInt\<close> returned, an integer or NaN (\<open>None\<close>).
\<close>

datatype number = Finite int | NaN | Infinity

record page_result =
  totalItems :: nat
  totalPages :: number
  currentPage :: "int option"
  products :: "object list"

datatype payload =
    ListPage page_result
  | ProductList "object list"
  | ProductRecord object
  | ErrorBody string string "string list option"
  | NoContent

record response =
  status :: nat
  payload :: payload

section \<open>Global error handling middleware (lines 273-290)\<close>

definition errorHandler :: "failure \<Rightarrow> response" where
  "errorHandler err =
     (let statusCode = (case statusCode err of
                          None \<Rightarrow> 500
                        | Some c \<Rightarrow> if c = 0 then 500 else c);
          message = (if message err = [] then ''Internal Server Error'' else message err);
          details = (case err of
                       ValidationError m ds \<Rightarrow> if length ds > 0 then Some ds else None
                     | _ \<Rightarrow> None)
      in \<lparr>status = statusCode, payload = ErrorBody ''error'' message details\<rparr>)"

section \<open>Strings and numbers of the engine\<close>

definition toLowerCase_char :: "char \<Rightarrow> char" where
  "toLowerCase_char c =
     (let n = (of_char c :: nat) in if 65 \<le> n \<and> n \<le> 90 then char_of (n + 32) else c)"

definition toLowerCase :: "string \<Rightarrow> string" where
  "toLowerCase s = map toLowerCase_char s"

text \<open>\<^verbatim>\<open>s.includes(t)\<close>: \<open>t\<close> occurs in \<open>s\<close> as a contiguous substring.\<close>

definition includes_js :: "string \<Rightarrow> string \<Rightarrow> bool" where
  "includes_js s t = sublist t s"

text \<open>
  \<^verbatim>\<open>v.toLowerCase()\<close> on a property that was read from an object: only a string has the
  method; reading it from \<^verbatim>\<open>undefined\<close> or \<^verbatim>\<open>null\<close>, or calling it on another value, throws
  a \<^verbatim>\<open>TypeError\<close>.
\<close>

fun toLowerCase_of :: "json option \<Rightarrow> failure + string" where
  "toLowerCase_of (Some (JStr s)) = Inr (toLowerCase s)"
| "toLowerCase_of None = Inl (TypeError ''Cannot read properties of undefined (reading toLowerCase)'')"
| "toLowerCase_of (Some JNull) = Inl (TypeError ''Cannot read properties of null (reading toLowerCase)'')"
| "toLowerCase_of (Some v) = Inl (TypeError ''toLowerCase is not a function'')"

fun toLowerCase_q :: "qvalue \<Rightarrow> failure + string" where
  "toLowerCase_q (QString s) = Inr (toLowerCase s)"
| "toLowerCase_q v = Inl (TypeError ''toLowerCase is not a function'')"

text \<open>\<^verbatim>\<open>xs.filter(f)\<close> where the callback may throw: the first throw ends the call.\<close>

fun filter_js :: "('a \<Rightarrow> failure + bool) \<Rightarrow> 'a list \<Rightarrow> failure + 'a list" where
  "filter_js f [] = Inr []"
| "filter_js f (x # xs) =
     (case f x of
        Inl e \<Rightarrow> Inl e
      | Inr b \<Rightarrow> (case filter_js f xs of
                   Inl e \<Rightarrow> Inl e
                 | Inr ys \<Rightarrow> Inr (if b then x # ys else ys)))"

text \<open>\<^verbatim>\<open>xs.findIndex(f)\<close>; \<open>None\<close> is \<^verbatim>\<open>-1\<close>.\<close>

fun findIndex :: "('a \<Rightarrow> bool) \<Rightarrow> 'a list \<Rightarrow> nat option" where
  "findIndex f [] = None"
| "findIndex f (x # xs) = (if f x then Some 0 else map_option Suc (findIndex f xs))"

text \<open>
  \<^verbatim>\<open>parseInt(v)\<close> with no radix: the argument is turned into a string, leading white space
  and a sign are skipped, a \<^verbatim>\<open>0x\<close> prefix selects radix 16, and the longest prefix of digits
  is read; \<open>None\<close> is NaN. Integers are unbounded here, a double is exact up to \<open>2 ^ 53\<close>.
\<close>

fun join_comma :: "string list \<Rightarrow> string" where
  "join_comma [] = []"
| "join_comma [x] = x"
| "join_comma (x # y # ys) = x @ '','' @ join_comma (y # ys)"

fun ToString :: "qvalue \<Rightarrow> string" where
  "ToString (QString s) = s"
| "ToString (QArray xs) = join_comma (map ToString xs)"
| "ToString (QObject kvs) = ''[object Object]''"

definition isWhiteSpace :: "char \<Rightarrow> bool" where
  "isWhiteSpace c = ((of_char c :: nat) \<in> {9, 10, 11, 12, 13, 32})"

definition digitValue :: "char \<Rightarrow> nat" where
  "digitValue c =
     (let n = (of_char c :: nat) in
      if 48 \<le> n \<and> n \<le> 57 then n - 48
      else if 97 \<le> n \<and> n \<le> 122 then n - 87
      else if 65 \<le> n \<and> n \<le> 90 then n - 55
      else 36)"

definition parseInt :: "string \<Rightarrow> int option" where
  "parseInt inputString =
     (let S = dropWhile isWhiteSpace inputString;
          sign = (if take 1 S = ''-'' then - 1 else 1);
          S = (if take 1 S = ''+'' \<or> take 1 S = ''-'' then drop 1 S else S);
          R = (if take 2 S = ''0x'' \<or> take 2 S = ''0X'' then 16 else 10);
          S = (if R = 16 then drop 2 S else S);
          Z = takeWhile (\<lambda>c. digitValue c < R) S
      in if Z = [] then None
         else Some (sign * int (foldl (\<lambda>a c. a * R + digitValue c) 0 Z)))"

text \<open>Multiplication of numbers that may be NaN.\<close>

definition times_js :: "int option \<Rightarrow> int option \<Rightarrow> int option" where
  "times_js a b = (case a of None \<Rightarrow> None | Some x \<Rightarrow> (case b of None \<Rightarrow> None | Some y \<Rightarrow> Some (x * y)))"

text \<open>\<^verbatim>\<open>Math.ceil(n / l)\<close> for an array length \<open>n\<close>: division by zero gives Infinity or NaN.\<close>

definition ceil_div :: "nat \<Rightarrow> int option \<Rightarrow> number" where
  "ceil_div n l =
     (case l of
        None \<Rightarrow> NaN
      | Some d \<Rightarrow> if d = 0 then (if n = 0 then NaN else Infinity)
                  else Finite \<lceil>(of_nat n :: rat) / of_int d\<rceil>)"

text \<open>
  \<^verbatim>\<open>xs.slice(startIndex, endIndex)\<close>: NaN counts as 0, a negative index counts from the end,
  and both ends are clamped to the list.
\<close>

definition slice_js :: "'a list \<Rightarrow> int option \<Rightarrow> int option \<Rightarrow> 'a list" where
  "slice_js xs startIndex endIndex =
     (let len = int (length xs);
          relativeStart = (case startIndex of None \<Rightarrow> 0 | Some s \<Rightarrow> s);
          k = (if relativeStart < 0 then max (len + relativeStart) 0 else min relativeStart len);
          relativeEnd = (case endIndex of None \<Rightarrow> 0 | Some e \<Rightarrow> e);
          final = (if relativeEnd < 0 then max (len + relativeEnd) 0 else min relativeEnd len)
      in take (nat (final - k)) (drop (nat k) xs))"

section \<open>Configuration, data store and requests\<close>

text \<open>\<^verbatim>\<open>process.env.API_KEY || 'default-secret-key-fallback'\<close> (line 21).\<close>

definition load_API_KEY :: "string option \<Rightarrow> string" where
  "load_API_KEY v =
     (case v of
        None \<Rightarrow> ''default-secret-key-fallback''
      | Some k \<Rightarrow> if k = [] then ''default-secret-key-fallback'' else k)"

text \<open>
  What a request sees from outside the handlers: the configured key and the string that
  \<^verbatim>\<open>uuidv4()\<close> returns when the create handler calls it.
\<close>

record env =
  API_KEY :: string
  uuidv4 :: string

text \<open>The initial value of \<^verbatim>\<open>products\<close> (lines 54-79).\<close>

definition seed_products :: "object list" where
  "seed_products =
     [ [''id'' \<mapsto> JStr ''1'', ''name'' \<mapsto> JStr ''Laptop'',
        ''description'' \<mapsto> JStr ''High-performance laptop with 16GB RAM'',
        ''price'' \<mapsto> JNum 1200, ''category'' \<mapsto> JStr ''electronics'', ''inStock'' \<mapsto> JBool True],
       [''id'' \<mapsto> JStr ''2'', ''name'' \<mapsto> JStr ''Smartphone'',
        ''description'' \<mapsto> JStr ''Latest model with 128GB storage'',
        ''price'' \<mapsto> JNum 800, ''category'' \<mapsto> JStr ''electronics'', ''inStock'' \<mapsto> JBool True],
       [''id'' \<mapsto> JStr ''3'', ''name'' \<mapsto> JStr ''Coffee Maker'',
        ''description'' \<mapsto> JStr ''Programmable coffee maker with timer'',
        ''price'' \<mapsto> JNum 50, ''category'' \<mapsto> JStr ''kitchen'', ''inStock'' \<mapsto> JBool False] ]"

text \<open>
  A request as the routes see it, after the logger and the JSON body parser of lines 130-131
  have run: the matched route, the \<^verbatim>\<open>x-api-key\<close> header, \<^verbatim>\<open>req.params.id\<close>,
  \<^verbatim>\<open>req.query\<close> and \<^verbatim>\<open>req.body\<close>, the object the parser has read (the empty object when
  the request has no body). A request whose body the parser rejects does not reach a route.
  The welcome route, the statistics route and the catch-all for unknown paths neither write
  the store nor raise a failure.
\<close>

datatype route =
    GET_products
  | GET_search
  | GET_product
  | POST_products
  | PUT_product
  | DELETE_product

record req =
  route :: route
  x_api_key :: "string option"
  params_id :: string
  query :: "string \<rightharpoonup> qvalue"
  body :: object

section \<open>Middlewares (lines 93-127)\<close>

text \<open>A middleware either calls \<^verbatim>\<open>next()\<close>, which is \<open>None\<close>, or \<^verbatim>\<open>next(err)\<close>.\<close>

definition authenticateMiddleware :: "string \<Rightarrow> req \<Rightarrow> failure option" where
  "authenticateMiddleware key r =
     (let apiKey = x_api_key r
      in if (case apiKey of None \<Rightarrow> True | Some k \<Rightarrow> k = []) \<or> apiKey \<noteq> Some key
         then Some (AuthenticationError ''Authentication failed. Invalid or missing API key.'')
         else None)"

text \<open>
  The array \<^verbatim>\<open>errors\<close> after the four checks of \<^verbatim>\<open>validateProduct\<close>. \<^verbatim>\<open>name.length\<close> and
  \<^verbatim>\<open>price <= 0\<close> are reached only on a string and on a number: \<^verbatim>\<open>||\<close> stops before.
\<close>

definition validation_errors :: "object \<Rightarrow> string list" where
  "validation_errors b =
     (let name = b ''name''; price = b ''price''; category = b ''category''; inStock = b ''inStock'';
          errors = [];
          errors = (if \<not> truthy name \<or> typeof name \<noteq> ''string''
                       \<or> (case name of Some (JStr s) \<Rightarrow> length s < 3 | _ \<Rightarrow> False)
                    then errors @ [''Name: required, string, min 3 characters.''] else errors);
          errors = (if price = None \<or> typeof price \<noteq> ''number''
                       \<or> (case price of Some (JNum x) \<Rightarrow> x \<le> 0 | _ \<Rightarrow> False)
                    then errors @ [''Price: required, positive number.''] else errors);
          errors = (if \<not> truthy category \<or> typeof category \<noteq> ''string''
                    then errors @ [''Category: required, string.''] else errors);
          errors = (if inStock \<noteq> None \<and> typeof inStock \<noteq> ''boolean''
                    then errors @ [''inStock: must be a boolean (true/false) if provided.''] else errors)
      in errors)"

definition validateProduct :: "req \<Rightarrow> failure option" where
  "validateProduct r =
     (let errors = validation_errors (body r)
      in if length errors > 0
         then Some (ValidationError ''Product data validation failed.'' errors)
         else None)"

section \<open>Route handlers (lines 144-258)\<close>

text \<open>
  A handler reads the store and the request and either answers or passes a failure on
  (by \<^verbatim>\<open>next(err)\<close>, or by throwing, which Express turns into \<^verbatim>\<open>next(err)\<close>); it
  returns the store it leaves behind.
\<close>

type_synonym handler_result = "(failure + response) \<times> object list"

text \<open>\<^verbatim>\<open>p.category.toLowerCase() === category.toLowerCase()\<close>, left operand first.\<close>

definition category_pred :: "qvalue \<Rightarrow> object \<Rightarrow> failure + bool" where
  "category_pred category p =
     (case toLowerCase_of (p ''category'') of
        Inl e \<Rightarrow> Inl e
      | Inr a \<Rightarrow> (case toLowerCase_q category of
                   Inl e \<Rightarrow> Inl e
                 | Inr b \<Rightarrow> Inr (a = b)))"

definition paginate :: "object list \<Rightarrow> int option \<Rightarrow> int option \<Rightarrow> page_result" where
  "paginate filteredProducts pageNum limitNum =
     (let startIndex = times_js (map_option (\<lambda>n. n - 1) pageNum) limitNum;
          endIndex = times_js pageNum limitNum
      in \<lparr>totalItems = length filteredProducts,
          totalPages = ceil_div (length filteredProducts) limitNum,
          currentPage = pageNum,
          products = slice_js filteredProducts startIndex endIndex\<rparr>)"

definition listProducts :: "object list \<Rightarrow> req \<Rightarrow> handler_result" where
  "listProducts store r =
     (let category = query r ''category'';
          page = query r ''page'';
          limit = query r ''limit'';
          filtered = (case category of
                        None \<Rightarrow> Inr store
                      | Some c \<Rightarrow> if truthy_q (Some c) then filter_js (category_pred c) store
                                  else Inr store)
      in case filtered of
           Inl e \<Rightarrow> (Inl e, store)
         | Inr filteredProducts \<Rightarrow>
             (let pageNum = (case page of None \<Rightarrow> Some 1 | Some v \<Rightarrow> parseInt (ToString v));
                  limitNum = (case limit of None \<Rightarrow> Some 10 | Some v \<Rightarrow> parseInt (ToString v))
              in (Inr \<lparr>status = 200, payload = ListPage (paginate filteredProducts pageNum limitNum)\<rparr>,
                  store)))"

text \<open>
  The predicate of the search (lines 179-182): \<^verbatim>\<open>||\<close> evaluates the description only when
  the name does not match.
\<close>

definition search_pred :: "string \<Rightarrow> object \<Rightarrow> failure + bool" where
  "search_pred searchQuery p =
     (case toLowerCase_of (p ''name'') of
        Inl e \<Rightarrow> Inl e
      | Inr n \<Rightarrow> if includes_js n searchQuery then Inr True
                 else (case toLowerCase_of (p ''description'') of
                         Inl e \<Rightarrow> Inl e
                       | Inr d \<Rightarrow> Inr (includes_js d searchQuery)))"

definition searchProducts :: "object list \<Rightarrow> req \<Rightarrow> handler_result" where
  "searchProducts store r =
     (let q = query r ''q''
      in case q of
           None \<Rightarrow> (Inl (ValidationError ''Search query (q) parameter is required.'' []), store)
         | Some v \<Rightarrow>
             if \<not> truthy_q (Some v)
             then (Inl (ValidationError ''Search query (q) parameter is required.'' []), store)
             else (case toLowerCase_q v of
                     Inl e \<Rightarrow> (Inl e, store)
                   | Inr searchQuery \<Rightarrow>
                       (case filter_js (search_pred searchQuery) store of
                          Inl e \<Rightarrow> (Inl e, store)
                        | Inr searchResults \<Rightarrow>
                            (Inr \<lparr>status = 200, payload = ProductList searchResults\<rparr>, store))))"

text \<open>\<^verbatim>\<open>p.id === id\<close>: the stored id is a string and equal to the path parameter.\<close>

definition has_id :: "string \<Rightarrow> object \<Rightarrow> bool" where
  "has_id pid p = (p ''id'' = Some (JStr pid))"

definition getProduct :: "object list \<Rightarrow> req \<Rightarrow> handler_result" where
  "getProduct store r =
     (let pid = params_id r
      in case find (has_id pid) store of
           None \<Rightarrow> (Inl (NotFoundError (''Product with id '' @ pid @ '' not found.'')), store)
         | Some product \<Rightarrow> (Inr \<lparr>status = 200, payload = ProductRecord product\<rparr>, store))"

text \<open>
  The object literal of lines 216-220: the generated id, then the spread of the body over
  it, then \<^verbatim>\<open>inStock\<close>.
\<close>

definition createProduct :: "string \<Rightarrow> object list \<Rightarrow> req \<Rightarrow> handler_result" where
  "createProduct uuid store r =
     (let newProduct = ([''id'' \<mapsto> JStr uuid] ++ body r)
                         (''inStock'' \<mapsto> (case body r ''inStock'' of
                                            None \<Rightarrow> JBool True
                                          | Some v \<Rightarrow> v))
      in (Inr \<lparr>status = 201, payload = ProductRecord newProduct\<rparr>, store @ [newProduct]))"

definition updateProduct :: "object list \<Rightarrow> req \<Rightarrow> handler_result" where
  "updateProduct store r =
     (let pid = params_id r
      in case findIndex (has_id pid) store of
           None \<Rightarrow>
             (Inl (NotFoundError (''Product with id '' @ pid @ '' not found for update.'')), store)
         | Some productIndex \<Rightarrow>
             (let updated = (store ! productIndex ++ body r)(''id'' \<mapsto> JStr pid)
              in (Inr \<lparr>status = 200, payload = ProductRecord updated\<rparr>,
                  store[productIndex := updated])))"

definition deleteProduct :: "object list \<Rightarrow> req \<Rightarrow> handler_result" where
  "deleteProduct store r =
     (let pid = params_id r;
          initialLength = length store;
          store' = filter (\<lambda>p. \<not> has_id pid p) store
      in if length store' = initialLength
         then (Inl (NotFoundError (''Product with id '' @ pid @ '' not found for deletion.'')), store')
         else (Inr \<lparr>status = 204, payload = NoContent\<rparr>, store'))"

section \<open>The application: route middlewares, handler, error handler\<close>

text \<open>
  The layers a route lists are run in order; the first that passes a failure on ends the
  run, and the failure goes to the error handler. \<open>executed\<close> records the layers that ran.
\<close>

datatype layer = Authenticate | Validate | Handler

fun run_middlewares ::
  "(layer \<times> (req \<Rightarrow> failure option)) list \<Rightarrow> req \<Rightarrow> layer list \<times> failure option" where
  "run_middlewares [] r = ([], None)"
| "run_middlewares ((l, m) # ms) r =
     (case m r of
        Some err \<Rightarrow> ([l], Some err)
      | None \<Rightarrow> (case run_middlewares ms r of (ls, res) \<Rightarrow> (l # ls, res)))"

definition middlewares :: "env \<Rightarrow> route \<Rightarrow> (layer \<times> (req \<Rightarrow> failure option)) list" where
  "middlewares e rt =
     (case rt of
        POST_products \<Rightarrow> [(Authenticate, authenticateMiddleware (API_KEY e)), (Validate, validateProduct)]
      | PUT_product \<Rightarrow> [(Authenticate, authenticateMiddleware (API_KEY e)), (Validate, validateProduct)]
      | _ \<Rightarrow> [])"

definition handler :: "env \<Rightarrow> route \<Rightarrow> object list \<Rightarrow> req \<Rightarrow> handler_result" where
  "handler e rt =
     (case rt of
        GET_products \<Rightarrow> listProducts
      | GET_search \<Rightarrow> searchProducts
      | GET_product \<Rightarrow> getProduct
      | POST_products \<Rightarrow> createProduct (uuidv4 e)
      | PUT_product \<Rightarrow> updateProduct
      | DELETE_product \<Rightarrow> deleteProduct)"

record outcome =
  executed :: "layer list"
  response :: response
  new_store :: "object list"

definition app :: "env \<Rightarrow> object list \<Rightarrow> req \<Rightarrow> outcome" where
  "app e store r =
     (case run_middlewares (middlewares e (route r)) r of
        (ls, Some err) \<Rightarrow> \<lparr>executed = ls, response = errorHandler err, new_store = store\<rparr>
      | (ls, None) \<Rightarrow>
          (case handler e (route r) store r of
             (Inl err, store') \<Rightarrow>
               \<lparr>executed = ls @ [Handler], response = errorHandler err, new_store = store'\<rparr>
           | (Inr res, store') \<Rightarrow>
               \<lparr>executed = ls @ [Handler], response = res, new_store = store'\<rparr>))"

section \<open>The properties in the words of the specification\<close>

text \<open>
  The four validation rules as the specification states them: name present, a string, of
  length at least 3; price present, a number, greater than 0; category present, a string,
  not empty; inStock a boolean if present.
\<close>

definition name_ok :: "object \<Rightarrow> bool" where
  "name_ok b = (case b ''name'' of Some (JStr s) \<Rightarrow> 3 \<le> length s | _ \<Rightarrow> False)"

definition price_ok :: "object \<Rightarrow> bool" where
  "price_ok b = (case b ''price'' of Some (JNum x) \<Rightarrow> 0 < x | _ \<Rightarrow> False)"

definition category_ok :: "object \<Rightarrow> bool" where
  "category_ok b = (case b ''category'' of Some (JStr s) \<Rightarrow> s \<noteq> [] | _ \<Rightarrow> False)"

definition inStock_ok :: "object \<Rightarrow> bool" where
  "inStock_ok b = (case b ''inStock'' of None \<Rightarrow> True | Some (JBool v) \<Rightarrow> True | _ \<Rightarrow> False)"

text \<open>
  The search as the specification words it: a product matches \<open>q\<close> when its name or its
  description contains \<open>q\<close> as a substring, letter case ignored.
\<close>

definition contains_ci :: "json option \<Rightarrow> string \<Rightarrow> bool" where
  "contains_ci v q =
     (case v of Some (JStr s) \<Rightarrow> includes_js (toLowerCase s) (toLowerCase q) | _ \<Rightarrow> False)"

definition search_matches :: "string \<Rightarrow> object \<Rightarrow> bool" where
  "search_matches q p = (contains_ci (p ''name'') q \<or> contains_ci (p ''description'') q)"






text \<open>The record, and the list of records, a response carries, if it carries one.\<close>

definition record_of :: "response \<Rightarrow> object" where
  "record_of res = (case payload res of ProductRecord p \<Rightarrow> p | _ \<Rightarrow> Map.empty)"

definition records_of :: "response \<Rightarrow> object list" where
  "records_of res =
     (case payload res of ProductList ps \<Rightarrow> ps | ListPage pr \<Rightarrow> products pr | _ \<Rightarrow> [])"

text \<open>
  The stores the application can be in: the seeded store, and every store a request leaves
  behind, whatever the key in use and the generated id. In each of them every product has
  a string name and a string category (\<open>store_ok\<close>, proved below).
\<close>

inductive reachable :: "object list \<Rightarrow> bool" where
  seeded: "reachable seed_products"
| served: "reachable store \<Longrightarrow> reachable (new_store (app e store r))"

definition is_string :: "json option \<Rightarrow> bool" where
  "is_string v = (case v of Some (JStr s) \<Rightarrow> True | _ \<Rightarrow> False)"

definition store_ok :: "object list \<Rightarrow> bool" where
  "store_ok store = (\<forall>p\<in>set store. is_string (p ''name'') \<and> is_string (p ''category''))"

section \<open>Concrete requests\<close>

text \<open>The key of the README's example configuration, and a generated id.\<close>

definition example_env :: env where
  "example_env = \<lparr>API_KEY = ''super-secret-key-123'',
                   uuidv4 = ''3f0c8a52-7b1e-4c5d-9a6f-2e8d1b4c7a90''\<rparr>"

text \<open>A request to a route with no key, no parameter, no query and the empty body.\<close>

definition request :: "route \<Rightarrow> req" where
  "request rt = \<lparr>route = rt, x_api_key = None, params_id = [], query = Map.empty, body = Map.empty\<rparr>"

text \<open>The invalid payload of the specification: \<^verbatim>\<open>{name:"ab", price:-1, category:""}\<close>.\<close>

definition invalid_payload :: object where
  "invalid_payload = [''name'' \<mapsto> JStr ''ab'', ''price'' \<mapsto> JNum (- 1), ''category'' \<mapsto> JStr []]"


text \<open>
  \<^verbatim>\<open>POST /api/products\<close> with the key and a valid body that also holds an \<^verbatim>\<open>id\<close>, the id of
  the first seeded product.
\<close>

definition create_with_client_id :: req where
  "create_with_client_id =
     (request POST_products)\<lparr>x_api_key := Some ''super-secret-key-123'',
        body := [''id'' \<mapsto> JStr ''1'', ''name'' \<mapsto> JStr ''Tablet'', ''price'' \<mapsto> JNum 300,
                 ''category'' \<mapsto> JStr ''electronics'']\<rparr>"

text \<open>
  \<^verbatim>\<open>PUT /api/products/2\<close> with the key and a valid body that holds another \<^verbatim>\<open>id\<close> and no
  description.
\<close>

definition update_with_client_id :: req where
  "update_with_client_id =
     (request PUT_product)\<lparr>x_api_key := Some ''super-secret-key-123'', params_id := ''2'',
        body := [''id'' \<mapsto> JStr ''999'', ''name'' \<mapsto> JStr ''Phone X'', ''price'' \<mapsto> JNum 700,
                 ''category'' \<mapsto> JStr ''electronics'']\<rparr>"

text \<open>
  \<^verbatim>\<open>POST /api/products\<close> with the key and the valid body
  \<^verbatim>\<open>{name:"Widget", price:5, category:"tools"}\<close>, which has no description, and the store it
  leaves when it is sent to the seeded store.
\<close>

definition create_without_description :: req where
  "create_without_description =
     (request POST_products)\<lparr>x_api_key := Some ''super-secret-key-123'',
        body := [''name'' \<mapsto> JStr ''Widget'', ''price'' \<mapsto> JNum 5, ''category'' \<mapsto> JStr ''tools'']\<rparr>"

definition store_with_widget :: "object list" where
  "store_with_widget = new_store (app example_env seed_products create_without_description)"

text \<open>\<^verbatim>\<open>GET /api/products/search?q=...\<close>.\<close>

definition search_request :: "string \<Rightarrow> req" where
  "search_request q = (request GET_search)\<lparr>query := [''q'' \<mapsto> QString q]\<rparr>"


section \<open>Error translation\<close>

lemma errorHandler_typed:
  "errorHandler (NotFoundError m) =
     \<lparr>status = 404, payload = ErrorBody ''error'' (if m = [] then ''Internal Server Error'' else m) None\<rparr>"
  "errorHandler (AuthenticationError m) =
     \<lparr>status = 401, payload = ErrorBody ''error'' (if m = [] then ''Internal Server Error'' else m) None\<rparr>"
  "errorHandler (ValidationError m ds) =
     \<lparr>status = 400, payload = ErrorBody ''error'' (if m = [] then ''Internal Server Error'' else m)
                                   (if ds = [] then None else Some ds)\<rparr>"
  by (simp_all add: errorHandler_def)

lemma errorHandler_other:
  "errorHandler (OtherError sc m) =
     \<lparr>status = (case sc of None \<Rightarrow> 500 | Some c \<Rightarrow> if c = 0 then 500 else c),
      payload = ErrorBody ''error'' (if m = [] then ''Internal Server Error'' else m) None\<rparr>"
  by (simp add: errorHandler_def)

text \<open>
  C3, as stated, fails: a failure that is none of the three classes and carries a message
  is answered with its own message, not with the generic \<^verbatim>\<open>Internal Server Error\<close>. Such is
  the \<^verbatim>\<open>TypeError\<close> that the search raises on a product without description.
\<close>

theorem C3_counterexample:
  "errorHandler (TypeError ''Cannot read properties of undefined (reading toLowerCase)'') =
     \<lparr>status = 500,
      payload = ErrorBody ''error'' ''Cannot read properties of undefined (reading toLowerCase)'' None\<rparr>
   \<and> ''Cannot read properties of undefined (reading toLowerCase)'' \<noteq> ''Internal Server Error''"
  by (simp add: errorHandler_def TypeError_def)

text \<open>
  C3, amended. The error handler answers a \<open>NotFoundError\<close>, a \<open>ValidationError\<close> and an
  \<open>AuthenticationError\<close> with 404, 400 and 401 and the body
  \<^verbatim>\<open>{status:"error", message}\<close>; \<^verbatim>\<open>details\<close> is added exactly when the failure is a
  \<open>ValidationError\<close> whose defect list is not empty. Any other failure is answered with its
  own \<^verbatim>\<open>statusCode\<close> when it carries one (and it is not 0), with 500 otherwise, and never
  with \<^verbatim>\<open>details\<close>. In every case the message is the failure's own message, and the generic
  \<^verbatim>\<open>Internal Server Error\<close> only when that message is empty.
\<close>

theorem C3_errorHandler_translation:
  "errorHandler (NotFoundError m) =
     \<lparr>status = 404, payload = ErrorBody ''error'' (if m = [] then ''Internal Server Error'' else m) None\<rparr>
   \<and> errorHandler (ValidationError m ds) =
     \<lparr>status = 400, payload = ErrorBody ''error'' (if m = [] then ''Internal Server Error'' else m)
                                   (if ds = [] then None else Some ds)\<rparr>
   \<and> errorHandler (AuthenticationError m) =
     \<lparr>status = 401, payload = ErrorBody ''error'' (if m = [] then ''Internal Server Error'' else m) None\<rparr>
   \<and> errorHandler (OtherError sc m) =
     \<lparr>status = (case sc of None \<Rightarrow> 500 | Some c \<Rightarrow> if c = 0 then 500 else c),
      payload = ErrorBody ''error'' (if m = [] then ''Internal Server Error'' else m) None\<rparr>"
  by (simp add: errorHandler_def)

section \<open>Authentication gate\<close>


lemma authenticate_accepts:
  "x_api_key r = Some key \<Longrightarrow> key \<noteq> [] \<Longrightarrow> authenticateMiddleware key r = None"
  by (simp add: authenticateMiddleware_def)



section \<open>Validation\<close>

lemma name_check:
  "(\<not> truthy v \<or> typeof v \<noteq> ''string'' \<or> (case v of Some (JStr s) \<Rightarrow> length s < 3 | _ \<Rightarrow> False))
   = (\<not> (case v of Some (JStr s) \<Rightarrow> 3 \<le> length s | _ \<Rightarrow> False))"
  by (cases v rule: truthy.cases) auto

lemma price_check:
  "(v = None \<or> typeof v \<noteq> ''number'' \<or> (case v of Some (JNum x) \<Rightarrow> x \<le> 0 | _ \<Rightarrow> False))
   = (\<not> (case v of Some (JNum x) \<Rightarrow> 0 < x | _ \<Rightarrow> False))"
  by (cases v rule: truthy.cases) auto

lemma category_check:
  "(\<not> truthy v \<or> typeof v \<noteq> ''string'')
   = (\<not> (case v of Some (JStr s) \<Rightarrow> s \<noteq> [] | _ \<Rightarrow> False))"
  by (cases v rule: truthy.cases) auto

lemma inStock_check:
  "(v \<noteq> None \<and> typeof v \<noteq> ''boolean'')
   = (\<not> (case v of None \<Rightarrow> True | Some (JBool b) \<Rightarrow> True | _ \<Rightarrow> False))"
  by (cases v rule: truthy.cases) auto

lemma validation_errors_rules:
  "validation_errors b =
     (if name_ok b then [] else [''Name: required, string, min 3 characters.''])
   @ (if price_ok b then [] else [''Price: required, positive number.''])
   @ (if category_ok b then [] else [''Category: required, string.''])
   @ (if inStock_ok b then [] else [''inStock: must be a boolean (true/false) if provided.''])"
  unfolding validation_errors_def Let_def name_check price_check category_check inStock_check
    name_ok_def price_ok_def category_ok_def inStock_ok_def
  by simp

lemma app_validation_fails:
  assumes "route r = POST_products \<or> route r = PUT_product"
      and "x_api_key r = Some (API_KEY e)" and "API_KEY e \<noteq> []"
      and "validation_errors (body r) \<noteq> []"
  shows "app e store r =
           \<lparr>executed = [Authenticate, Validate],
            response = \<lparr>status = 400,
                        payload = ErrorBody ''error'' ''Product data validation failed.''
                                    (Some (validation_errors (body r)))\<rparr>,
            new_store = store\<rparr>"
  using assms
  by (auto simp: app_def middlewares_def authenticate_accepts validateProduct_def Let_def
        errorHandler_typed)

lemma invalid_payload_errors:
  "validation_errors invalid_payload =
     [''Name: required, string, min 3 characters.'', ''Price: required, positive number.'',
      ''Category: required, string.'']"
  by (simp add: validation_errors_rules name_ok_def price_ok_def category_ok_def inStock_ok_def
        invalid_payload_def)

text \<open>
  C7. \<open>validateProduct\<close> checks the four rules independently and \<^verbatim>\<open>errors\<close> holds one
  entry for each rule that is violated, in the order name, price, category, inStock: no
  rule hides another. An authenticated create or update with a violated rule is answered
  with 400 and these entries as \<^verbatim>\<open>details\<close>; for the payload
  \<^verbatim>\<open>{name:"ab", price:-1, category:""}\<close> they are exactly three.
\<close>

theorem C7_validateProduct_collects_all:
  "validation_errors b =
       (if name_ok b then [] else [''Name: required, string, min 3 characters.''])
     @ (if price_ok b then [] else [''Price: required, positive number.''])
     @ (if category_ok b then [] else [''Category: required, string.''])
     @ (if inStock_ok b then [] else [''inStock: must be a boolean (true/false) if provided.''])
   \<and> length (validation_errors b) =
       (if name_ok b then 0 else 1) + (if price_ok b then 0 else 1)
     + (if category_ok b then 0 else 1) + (if inStock_ok b then 0 else 1)
   \<and> ((route r = POST_products \<or> route r = PUT_product) \<and> x_api_key r = Some (API_KEY e)
        \<and> API_KEY e \<noteq> [] \<and> validation_errors (body r) \<noteq> [] \<longrightarrow>
        response (app e store r) =
          \<lparr>status = 400,
           payload = ErrorBody ''error'' ''Product data validation failed.''
                       (Some (validation_errors (body r)))\<rparr>)
   \<and> ((route r = POST_products \<or> route r = PUT_product) \<and> x_api_key r = Some (API_KEY e)
        \<and> API_KEY e \<noteq> [] \<and> body r = invalid_payload \<longrightarrow>
        response (app e store r) =
          \<lparr>status = 400,
           payload = ErrorBody ''error'' ''Product data validation failed.''
                       (Some [''Name: required, string, min 3 characters.'',
                              ''Price: required, positive number.'',
                              ''Category: required, string.''])\<rparr>)"
proof (intro conjI impI)
  show "validation_errors b =
       (if name_ok b then [] else [''Name: required, string, min 3 characters.''])
     @ (if price_ok b then [] else [''Price: required, positive number.''])
     @ (if category_ok b then [] else [''Category: required, string.''])
     @ (if inStock_ok b then [] else [''inStock: must be a boolean (true/false) if provided.''])"
    by (rule validation_errors_rules)
  show "length (validation_errors b) =
       (if name_ok b then 0 else 1) + (if price_ok b then 0 else 1)
     + (if category_ok b then 0 else 1) + (if inStock_ok b then 0 else 1)"
    by (simp add: validation_errors_rules)
next
  assume "(route r = POST_products \<or> route r = PUT_product) \<and> x_api_key r = Some (API_KEY e)
        \<and> API_KEY e \<noteq> [] \<and> validation_errors (body r) \<noteq> []"
  then show "response (app e store r) =
          \<lparr>status = 400,
           payload = ErrorBody ''error'' ''Product data validation failed.''
                       (Some (validation_errors (body r)))\<rparr>"
    by (simp add: app_validation_fails)
next
  assume a: "(route r = POST_products \<or> route r = PUT_product) \<and> x_api_key r = Some (API_KEY e)
        \<and> API_KEY e \<noteq> [] \<and> body r = invalid_payload"
  then have "validation_errors (body r) \<noteq> []"
    by (simp add: invalid_payload_errors)
  with a show "response (app e store r) =
          \<lparr>status = 400,
           payload = ErrorBody ''error'' ''Product data validation failed.''
                       (Some [''Name: required, string, min 3 characters.'',
                              ''Price: required, positive number.'',
                              ''Category: required, string.''])\<rparr>"
    by (simp add: app_validation_fails invalid_payload_errors)
qed

theorem C7_witness:
  "x_api_key ((request POST_products)\<lparr>x_api_key := Some ''super-secret-key-123'', body := invalid_payload\<rparr>)
     = Some (API_KEY example_env)
   \<and> status (response (app example_env seed_products
        ((request POST_products)\<lparr>x_api_key := Some ''super-secret-key-123'', body := invalid_payload\<rparr>))) = 400
   \<and> (\<exists>ds. payload (response (app example_env seed_products
        ((request POST_products)\<lparr>x_api_key := Some ''super-secret-key-123'', body := invalid_payload\<rparr>)))
          = ErrorBody ''error'' ''Product data validation failed.'' (Some ds) \<and> length ds = 3)"
  using C7_validateProduct_collects_all
    [of invalid_payload "(request POST_products)\<lparr>x_api_key := Some ''super-secret-key-123'', body := invalid_payload\<rparr>"
        example_env seed_products]
  by (simp add: request_def example_env_def)




section \<open>Create, update and fetch\<close>

lemma app_write_passes:
  assumes "route r = POST_products \<or> route r = PUT_product"
      and "x_api_key r = Some (API_KEY e)" and "API_KEY e \<noteq> []"
      and "validation_errors (body r) = []"
  shows "app e store r =
           (case handler e (route r) store r of
              (Inl err, store') \<Rightarrow>
                \<lparr>executed = [Authenticate, Validate, Handler], response = errorHandler err,
                 new_store = store'\<rparr>
            | (Inr res, store') \<Rightarrow>
                \<lparr>executed = [Authenticate, Validate, Handler], response = res, new_store = store'\<rparr>)"
  using assms
  by (auto simp: app_def middlewares_def authenticate_accepts validateProduct_def Let_def
        split: prod.splits sum.splits)

lemma app_write_status_cases:
  assumes "route r = POST_products \<or> route r = PUT_product"
  shows "status (response (app e store r)) = 401
       \<or> status (response (app e store r)) = 400
       \<or> (x_api_key r = Some (API_KEY e) \<and> API_KEY e \<noteq> [] \<and> validation_errors (body r) = [])"
proof (cases "x_api_key r = Some (API_KEY e) \<and> API_KEY e \<noteq> []")
  case False
  then have "authenticateMiddleware (API_KEY e) r =
     Some (AuthenticationError ''Authentication failed. Invalid or missing API key.'')"
    by (auto simp: authenticateMiddleware_def Let_def split: option.splits)
  with assms show ?thesis
    by (auto simp: app_def middlewares_def errorHandler_typed)
next
  case True
  show ?thesis
  proof (cases "validation_errors (body r) = []")
    case True
    with \<open>x_api_key r = Some (API_KEY e) \<and> API_KEY e \<noteq> []\<close> show ?thesis by simp
  next
    case False
    with True assms show ?thesis by (simp add: app_validation_fails)
  qed
qed

lemma findIndex_Some:
  "findIndex f xs = Some i \<Longrightarrow> i < length xs \<and> f (xs ! i) \<and> (\<forall>j<i. \<not> f (xs ! j))"
proof (induction xs arbitrary: i)
  case Nil
  then show ?case by simp
next
  case (Cons x xs)
  show ?case
  proof (cases "f x")
    case True
    with Cons.prems show ?thesis by simp
  next
    case False
    with Cons.prems obtain k where k: "findIndex f xs = Some k" "i = Suc k"
      by auto
    from Cons.IH [OF k(1)] False k(2) show ?thesis
      by (auto simp: nth_Cons split: nat.splits)
  qed
qed

lemma findIndex_None: "findIndex f xs = None \<Longrightarrow> \<forall>x\<in>set xs. \<not> f x"
  by (induction xs) (auto split: if_splits)

text \<open>
  C9. An update that is answered with 200 has replaced the first stored record whose id
  is the id of the path by the merge of that record and the body, with \<^verbatim>\<open>id\<close> set to the id
  of the path: the stored and the returned record carry the id of the path whatever
  \<^verbatim>\<open>id\<close> the body holds, every field the body omits keeps its prior value, and every
  other field of the body is taken over.
\<close>

theorem C9_update_pins_id:
  assumes "route r = PUT_product" and "status (response (app e store r)) = 200"
  shows "\<exists>i u. i < length store \<and> has_id (params_id r) (store ! i)
              \<and> (\<forall>j<i. \<not> has_id (params_id r) (store ! j))
              \<and> new_store (app e store r) = store[i := u]
              \<and> payload (response (app e store r)) = ProductRecord u
              \<and> u ''id'' = Some (JStr (params_id r))
              \<and> (\<forall>k. k \<notin> dom (body r) \<longrightarrow> u k = (store ! i) k)
              \<and> (\<forall>k. k \<in> dom (body r) \<and> k \<noteq> ''id'' \<longrightarrow> u k = body r k)"
proof -
  from app_write_status_cases [of r e store] assms
  have ok: "x_api_key r = Some (API_KEY e)" "API_KEY e \<noteq> []" "validation_errors (body r) = []"
    by auto
  have run: "app e store r =
           (case updateProduct store r of
              (Inl err, store') \<Rightarrow>
                \<lparr>executed = [Authenticate, Validate, Handler], response = errorHandler err,
                 new_store = store'\<rparr>
            | (Inr res, store') \<Rightarrow>
                \<lparr>executed = [Authenticate, Validate, Handler], response = res, new_store = store'\<rparr>)"
    using app_write_passes [of r e store] assms(1) ok by (simp add: handler_def)
  show ?thesis
  proof (cases "findIndex (has_id (params_id r)) store")
    case None
    with run have "status (response (app e store r)) = 404"
      by (simp add: updateProduct_def errorHandler_typed)
    with assms(2) show ?thesis by simp
  next
    case (Some i)
    let ?u = "(store ! i ++ body r)(''id'' \<mapsto> JStr (params_id r))"
    from findIndex_Some [OF Some]
    have i: "i < length store" "has_id (params_id r) (store ! i)"
      "\<forall>j<i. \<not> has_id (params_id r) (store ! j)" by auto
    from run Some have out: "new_store (app e store r) = store[i := ?u]"
      "payload (response (app e store r)) = ProductRecord ?u"
      by (simp_all add: updateProduct_def Let_def)
    have frame: "\<forall>k. k \<notin> dom (body r) \<longrightarrow> ?u k = (store ! i) k"
      using i(2) by (auto simp: has_id_def map_add_def split: option.splits)
    have merged: "\<forall>k. k \<in> dom (body r) \<and> k \<noteq> ''id'' \<longrightarrow> ?u k = body r k"
      by (auto simp: map_add_def split: option.splits)
    from i out frame merged show ?thesis
      by (intro exI [of _ i] exI [of _ ?u]) simp
  qed
qed

lemmas eval_app = app_def middlewares_def handler_def authenticateMiddleware_def validateProduct_def
  validation_errors_def request_def example_env_def seed_products_def has_id_def record_of_def
  createProduct_def updateProduct_def getProduct_def errorHandler_def Let_def

theorem C9_witness:
  "route update_with_client_id = PUT_product
   \<and> status (response (app example_env seed_products update_with_client_id)) = 200
   \<and> body update_with_client_id ''id'' = Some (JStr ''999'')
   \<and> record_of (response (app example_env seed_products update_with_client_id)) ''id'' = Some (JStr ''2'')
   \<and> (\<exists>i u. i < length seed_products \<and> has_id ''2'' (seed_products ! i)
         \<and> new_store (app example_env seed_products update_with_client_id) = seed_products[i := u]
         \<and> u ''id'' = Some (JStr ''2'')
         \<and> u ''description'' = (seed_products ! i) ''description'')"
proof -
  have r: "route update_with_client_id = PUT_product" "params_id update_with_client_id = ''2''"
    "body update_with_client_id ''id'' = Some (JStr ''999'')"
    by (simp_all add: update_with_client_id_def request_def)
  have d: "''description'' \<notin> dom (body update_with_client_id)"
    by (simp add: update_with_client_id_def request_def domIff)
  have s: "status (response (app example_env seed_products update_with_client_id)) = 200"
    by (simp add: update_with_client_id_def eval_app)
  have rec: "record_of (response (app example_env seed_products update_with_client_id)) ''id'' = Some (JStr ''2'')"
    by (simp add: update_with_client_id_def eval_app)
  from C9_update_pins_id [OF r(1) s] obtain i u where iu:
    "i < length seed_products" "has_id (params_id update_with_client_id) (seed_products ! i)"
    "new_store (app example_env seed_products update_with_client_id) = seed_products[i := u]"
    "u ''id'' = Some (JStr (params_id update_with_client_id))"
    "\<forall>k. k \<notin> dom (body update_with_client_id) \<longrightarrow> u k = (seed_products ! i) k"
    by blast
  from iu(5) d have "u ''description'' = (seed_products ! i) ''description''"
    by blast
  with iu(1-4) r(2) have "\<exists>i u. i < length seed_products \<and> has_id ''2'' (seed_products ! i)
         \<and> new_store (app example_env seed_products update_with_client_id) = seed_products[i := u]
         \<and> u ''id'' = Some (JStr ''2'')
         \<and> u ''description'' = (seed_products ! i) ''description''"
    by auto
  with r s rec show ?thesis by blast
qed

text \<open>
  C1 does not hold of the create handler. The object literal of lines 216-220 writes the
  generated id first and spreads the body after it, so an \<^verbatim>\<open>id\<close> in the body replaces the
  generated one (the update handler writes \<^verbatim>\<open>id\<close> last). On the seeded store, the valid
  create whose body holds \<^verbatim>\<open>id: "1"\<close> is answered with 201 and the id of the body, not the
  generated one, and the store then holds two products with the id \<^verbatim>\<open>"1"\<close>.
\<close>

theorem C1_create_keeps_client_id:
  "status (response (app example_env seed_products create_with_client_id)) = 201
   \<and> record_of (response (app example_env seed_products create_with_client_id)) ''id'' = Some (JStr ''1'')
   \<and> record_of (response (app example_env seed_products create_with_client_id)) ''id''
       \<noteq> Some (JStr (uuidv4 example_env))
   \<and> map (\<lambda>p. p ''id'') (new_store (app example_env seed_products create_with_client_id))
       = [Some (JStr ''1''), Some (JStr ''2''), Some (JStr ''3''), Some (JStr ''1'')]"
  by (simp add: create_with_client_id_def eval_app)

text \<open>
  C10 does not hold of the create and fetch handlers, by the defect of C1. After the valid
  create whose body holds \<^verbatim>\<open>id: "1"\<close>, which returns the record named Tablet with id
  \<^verbatim>\<open>"1"\<close>, fetching \<^verbatim>\<open>/api/products/1\<close> finds the first product with that id and returns the
  seeded Laptop, not the record just created.
\<close>

theorem C10_round_trip_returns_other_record:
  "status (response (app example_env seed_products create_with_client_id)) = 201
   \<and> record_of (response (app example_env seed_products create_with_client_id)) ''id'' = Some (JStr ''1'')
   \<and> record_of (response (app example_env seed_products create_with_client_id)) ''name'' = Some (JStr ''Tablet'')
   \<and> status (response (app example_env (new_store (app example_env seed_products create_with_client_id))
               ((request GET_product)\<lparr>params_id := ''1''\<rparr>))) = 200
   \<and> record_of (response (app example_env (new_store (app example_env seed_products create_with_client_id))
               ((request GET_product)\<lparr>params_id := ''1''\<rparr>))) ''name'' = Some (JStr ''Laptop'')"
  by (simp add: create_with_client_id_def eval_app)


text \<open>
  What the create handler does keep when the body holds no \<^verbatim>\<open>id\<close>: the record gets the
  generated id and is appended; \<^verbatim>\<open>inStock\<close> is \<^verbatim>\<open>true\<close> when the body omits it; and when no
  stored product has the generated id, fetching it returns the created record.
\<close>

lemma find_append_fresh:
  "\<forall>x\<in>set xs. \<not> f x \<Longrightarrow> f y \<Longrightarrow> find f (xs @ [y]) = Some y"
  by (induction xs) auto

lemma create_assigns_generated_id:
  assumes "route r = POST_products"
      and "x_api_key r = Some (API_KEY e)" and "API_KEY e \<noteq> []"
      and "validation_errors (body r) = []"
      and "body r ''id'' = None"
  shows "status (response (app e store r)) = 201
       \<and> record_of (response (app e store r)) ''id'' = Some (JStr (uuidv4 e))
       \<and> new_store (app e store r) = store @ [record_of (response (app e store r))]"
  using assms
  by (simp add: app_write_passes handler_def createProduct_def Let_def record_of_def map_add_def)

lemma create_inStock_default:
  assumes "route r = POST_products"
      and "x_api_key r = Some (API_KEY e)" and "API_KEY e \<noteq> []"
      and "validation_errors (body r) = []"
  shows "record_of (response (app e store r)) ''inStock'' =
           (case body r ''inStock'' of None \<Rightarrow> Some (JBool True) | Some v \<Rightarrow> Some v)"
  using assms
  by (simp add: app_write_passes handler_def createProduct_def Let_def record_of_def
        split: option.splits)

lemma app_get_product:
  "route r = GET_product \<Longrightarrow>
   app e store r =
     (case find (has_id (params_id r)) store of
        None \<Rightarrow> \<lparr>executed = [Handler],
                  response = errorHandler (NotFoundError (''Product with id '' @ params_id r @ '' not found.'')),
                  new_store = store\<rparr>
      | Some p \<Rightarrow> \<lparr>executed = [Handler], response = \<lparr>status = 200, payload = ProductRecord p\<rparr>,
                   new_store = store\<rparr>)"
  by (simp add: app_def middlewares_def handler_def getProduct_def Let_def split: option.splits)

lemma create_round_trip_generated_id:
  assumes "route r = POST_products"
      and "x_api_key r = Some (API_KEY e)" and "API_KEY e \<noteq> []"
      and "validation_errors (body r) = []"
      and "body r ''id'' = None"
      and "\<forall>p\<in>set store. \<not> has_id (uuidv4 e) p"
  shows "response (app e (new_store (app e store r)) ((request GET_product)\<lparr>params_id := uuidv4 e\<rparr>))
           = \<lparr>status = 200, payload = ProductRecord (record_of (response (app e store r)))\<rparr>"
proof -
  let ?p = "record_of (response (app e store r))"
  from create_assigns_generated_id [OF assms(1-5)]
  have c: "?p ''id'' = Some (JStr (uuidv4 e))" "new_store (app e store r) = store @ [?p]"
    by simp_all
  from c(1) have "has_id (uuidv4 e) ?p" by (simp add: has_id_def)
  with assms(6) have "find (has_id (uuidv4 e)) (store @ [?p]) = Some ?p"
    by (simp add: find_append_fresh)
  then have "app e (store @ [?p]) ((request GET_product)\<lparr>params_id := uuidv4 e\<rparr>) =
    \<lparr>executed = [Handler], response = \<lparr>status = 200, payload = ProductRecord ?p\<rparr>,
     new_store = store @ [?p]\<rparr>"
    by (subst app_get_product) (simp_all add: request_def)
  then show ?thesis
    by (simp only: c(2)) simp
qed

section \<open>Search\<close>

lemma filter_js_fails:
  "\<exists>x\<in>set xs. isl (f x) \<Longrightarrow> \<exists>x\<in>set xs. \<exists>e. f x = Inl e \<and> filter_js f xs = Inl e"
proof (induction xs)
  case Nil
  then show ?case by simp
next
  case (Cons x xs)
  show ?case
  proof (cases "f x")
    case (Inl e)
    then show ?thesis by auto
  next
    case (Inr b)
    with Cons.prems have "\<exists>y\<in>set xs. isl (f y)" by auto
    from Cons.IH [OF this] obtain y e where "y \<in> set xs" "f y = Inl e" "filter_js f xs = Inl e"
      by blast
    with Inr show ?thesis by auto
  qed
qed

lemma filter_js_total:
  "\<forall>x\<in>set xs. f x = Inr (g x) \<Longrightarrow> filter_js f xs = Inr (filter g xs)"
  by (induction xs) auto

lemma toLowerCase_of_Inl:
  "toLowerCase_of v = Inl e \<Longrightarrow> \<exists>m. e = TypeError m \<and> m \<noteq> []"
  by (cases v rule: toLowerCase_of.cases) auto

lemma search_pred_Inl:
  "search_pred s p = Inl e \<Longrightarrow> \<exists>m. e = TypeError m \<and> m \<noteq> []"
  by (auto simp: search_pred_def split: sum.splits if_splits dest: toLowerCase_of_Inl)

lemma search_pred_fails:
  assumes "p ''description'' = None" and "\<not> contains_ci (p ''name'') q"
  shows "isl (search_pred (toLowerCase q) p)"
proof (cases "toLowerCase_of (p ''name'')")
  case (Inl e)
  then show ?thesis by (simp add: search_pred_def)
next
  case (Inr n)
  then obtain s where s: "p ''name'' = Some (JStr s)" "n = toLowerCase s"
    by (cases "p ''name''" rule: toLowerCase_of.cases) auto
  with assms(2) have "\<not> includes_js n (toLowerCase q)"
    by (simp add: contains_ci_def)
  with Inr assms(1) show ?thesis by (simp add: search_pred_def)
qed

lemma app_search:
  "route r = GET_search \<Longrightarrow>
   app e store r =
     (case searchProducts store r of
        (Inl err, store') \<Rightarrow> \<lparr>executed = [Handler], response = errorHandler err, new_store = store'\<rparr>
      | (Inr res, store') \<Rightarrow> \<lparr>executed = [Handler], response = res, new_store = store'\<rparr>)"
  by (simp add: app_def middlewares_def handler_def split: prod.splits sum.splits)

lemma errorHandler_TypeError:
  "m \<noteq> [] \<Longrightarrow> errorHandler (TypeError m) = \<lparr>status = 500, payload = ErrorBody ''error'' m None\<rparr>"
  by (simp add: TypeError_def errorHandler_other)

text \<open>
  C2, amended. When the store holds a product whose description is absent and whose name
  does not contain \<open>q\<close> (letter case ignored), a search with the non-empty string \<open>q\<close> is
  not answered with a match list: the predicate reads \<^verbatim>\<open>toLowerCase\<close> from the missing
  description, the \<^verbatim>\<open>TypeError\<close> reaches the error handler and the answer is 500, whether
  or not \<open>q\<close> matches another product. The store is left as it was.
\<close>

theorem C2_search_fails_without_description:
  assumes "route r = GET_search" and "query r ''q'' = Some (QString q)" and "q \<noteq> []"
      and "p \<in> set store" and "p ''description'' = None" and "\<not> contains_ci (p ''name'') q"
  shows "status (response (app e store r)) = 500
       \<and> (\<exists>m. response (app e store r) = errorHandler (TypeError m)
              \<and> payload (response (app e store r)) = ErrorBody ''error'' m None)
       \<and> new_store (app e store r) = store"
proof -
  from assms(4-6) have "\<exists>x\<in>set store. isl (search_pred (toLowerCase q) x)"
    using search_pred_fails by blast
  from filter_js_fails [OF this] obtain x err where
    x: "search_pred (toLowerCase q) x = Inl err" "filter_js (search_pred (toLowerCase q)) store = Inl err"
    by blast
  from search_pred_Inl [OF x(1)] obtain m where m: "err = TypeError m" "m \<noteq> []" by blast
  from assms(2,3) x(2) m(1) have "searchProducts store r = (Inl (TypeError m), store)"
    by (simp add: searchProducts_def)
  with assms(1) have "app e store r =
      \<lparr>executed = [Handler], response = errorHandler (TypeError m), new_store = store\<rparr>"
    by (simp add: app_search)
  with m(2) show ?thesis
    by (auto simp: errorHandler_TypeError)
qed

lemma store_with_widget_eq:
  "store_with_widget = seed_products @
     [[''id'' \<mapsto> JStr ''3f0c8a52-7b1e-4c5d-9a6f-2e8d1b4c7a90'', ''name'' \<mapsto> JStr ''Widget'',
       ''price'' \<mapsto> JNum 5, ''category'' \<mapsto> JStr ''tools'', ''inStock'' \<mapsto> JBool True]]"
  unfolding store_with_widget_def create_without_description_def
  by (simp add: app_def middlewares_def handler_def authenticateMiddleware_def validateProduct_def
       validation_errors_def request_def example_env_def createProduct_def Let_def)

lemmas eval_search = search_request_def searchProducts_def search_pred_def includes_js_def
  toLowerCase_def toLowerCase_char_def records_of_def contains_ci_def TypeError_def
  char_of_def sublist_code bit_Suc_0_iff

text \<open>
  C2, as stated, fails: \<^verbatim>\<open>||\<close> does not evaluate the description of a product whose name
  matches. The store holds the Widget, which has no description, and the search for
  \<^verbatim>\<open>widget\<close> is answered with 200 and the Widget.
\<close>

theorem C2_counterexample:
  "(store_with_widget ! 3) ''description'' = None
   \<and> status (response (app example_env store_with_widget (search_request ''widget''))) = 200
   \<and> length (records_of (response (app example_env store_with_widget (search_request ''widget'')))) = 1
   \<and> (records_of (response (app example_env store_with_widget (search_request ''widget''))) ! 0) ''name''
        = Some (JStr ''Widget'')"
  by (simp add: store_with_widget_eq eval_app eval_search)


theorem C2_witness:
  "store_with_widget ! 3 \<in> set store_with_widget
   \<and> (store_with_widget ! 3) ''description'' = None
   \<and> \<not> contains_ci ((store_with_widget ! 3) ''name'') ''coffee''
   \<and> contains_ci ((store_with_widget ! 2) ''name'') ''coffee''
   \<and> status (response (app example_env store_with_widget (search_request ''coffee''))) = 500
   \<and> new_store (app example_env store_with_widget (search_request ''coffee'')) = store_with_widget"
proof -
  have a: "store_with_widget ! 3 \<in> set store_with_widget"
    by (simp add: store_with_widget_eq seed_products_def)
  have b: "(store_with_widget ! 3) ''description'' = None"
    by (simp add: store_with_widget_eq seed_products_def)
  have c: "\<not> contains_ci ((store_with_widget ! 3) ''name'') ''coffee''"
    by (simp add: store_with_widget_eq seed_products_def eval_search)
  have d: "contains_ci ((store_with_widget ! 2) ''name'') ''coffee''"
    by (simp add: store_with_widget_eq seed_products_def eval_search)
  have r: "route (search_request ''coffee'') = GET_search"
    "query (search_request ''coffee'') ''q'' = Some (QString ''coffee'')" "''coffee'' \<noteq> []"
    by (simp_all add: search_request_def request_def)
  from C2_search_fails_without_description [OF r a b c, of example_env] a b c d
  show ?thesis by simp
qed

text \<open>
  C4 does not hold of the search handler. The description is optional on create, and the
  predicate reads \<^verbatim>\<open>toLowerCase\<close> from it without a test. After the valid create of the
  Widget, which has no description, the search for \<^verbatim>\<open>zzz\<close>, which matches no product, is
  answered with 500 and not with 200 and the empty list.
\<close>

theorem C4_search_fails_on_created_product:
  "status (response (app example_env seed_products create_without_description)) = 201
   \<and> store_with_widget = new_store (app example_env seed_products create_without_description)
   \<and> filter (search_matches ''zzz'') store_with_widget = []
   \<and> response (app example_env store_with_widget (search_request ''zzz'')) =
       \<lparr>status = 500,
        payload = ErrorBody ''error'' ''Cannot read properties of undefined (reading toLowerCase)'' None\<rparr>"
proof -
  have "status (response (app example_env seed_products create_without_description)) = 201"
    by (simp add: create_without_description_def eval_app)
  moreover have "filter (search_matches ''zzz'') store_with_widget = []"
    by (simp add: store_with_widget_eq seed_products_def search_matches_def eval_search)
  moreover have "response (app example_env store_with_widget (search_request ''zzz'')) =
       \<lparr>status = 500,
        payload = ErrorBody ''error'' ''Cannot read properties of undefined (reading toLowerCase)'' None\<rparr>"
    by (simp add: store_with_widget_eq eval_app eval_search)
  ultimately show ?thesis by (simp add: store_with_widget_def)
qed

text \<open>
  What the search handler does keep: 400 when \<open>q\<close> is missing or empty, and, when every
  stored product has a string name and a string description, 200 with all the products that
  match, in the order of the store. A \<open>q\<close> that is an array or an object is answered with
  500.
\<close>

lemma search_without_q:
  assumes "route r = GET_search"
      and "query r ''q'' = None \<or> query r ''q'' = Some (QString [])"
  shows "response (app e store r) =
           \<lparr>status = 400, payload = ErrorBody ''error'' ''Search query (q) parameter is required.'' None\<rparr>
       \<and> new_store (app e store r) = store"
  using assms by (auto simp: app_search searchProducts_def errorHandler_typed)

lemma search_pred_described:
  assumes "is_string (p ''name'')" and "is_string (p ''description'')"
  shows "search_pred (toLowerCase q) p = Inr (search_matches q p)"
proof -
  from assms obtain n d where "p ''name'' = Some (JStr n)" "p ''description'' = Some (JStr d)"
    by (auto simp: is_string_def split: option.splits json.splits)
  then show ?thesis
    by (simp add: search_pred_def search_matches_def contains_ci_def)
qed

lemma search_with_descriptions:
  assumes "route r = GET_search" and "query r ''q'' = Some (QString q)" and "q \<noteq> []"
      and "\<forall>p\<in>set store. is_string (p ''name'') \<and> is_string (p ''description'')"
  shows "response (app e store r) =
           \<lparr>status = 200, payload = ProductList (filter (search_matches q) store)\<rparr>
       \<and> new_store (app e store r) = store"
proof -
  from assms(4) have "filter_js (search_pred (toLowerCase q)) store = Inr (filter (search_matches q) store)"
    by (intro filter_js_total) (simp add: search_pred_described)
  with assms(1-3) show ?thesis
    by (simp add: app_search searchProducts_def)
qed

lemma search_non_string_q:
  assumes "route r = GET_search"
      and "query r ''q'' = Some (QArray xs) \<or> query r ''q'' = Some (QObject kvs)"
  shows "status (response (app e store r)) = 500"
  using assms by (auto simp: app_search searchProducts_def errorHandler_TypeError)

section \<open>An invariant of the store\<close>

text \<open>
  Every product of a reachable store has a string name and a string category: the seeded
  ones have, the create and update handlers run after \<open>validateProduct\<close>, and no other
  handler adds or changes a product.
\<close>

lemma valid_body_strings:
  assumes "validation_errors b = []"
  shows "is_string (b ''name'') \<and> is_string (b ''category'')"
proof -
  from assms have "name_ok b" "category_ok b"
    by (auto simp: validation_errors_rules split: if_splits)
  then show ?thesis
    by (auto simp: name_ok_def category_ok_def is_string_def split: option.splits json.splits)
qed

lemma handler_store_ok:
  assumes "store_ok store"
      and "route r = POST_products \<or> route r = PUT_product \<longrightarrow> validation_errors (body r) = []"
  shows "store_ok (snd (handler e (route r) store r))"
proof (cases "route r")
  case GET_products
  then show ?thesis using assms(1)
    by (simp add: handler_def listProducts_def Let_def split: option.splits sum.splits)
next
  case GET_search
  then show ?thesis using assms(1)
    by (simp add: handler_def searchProducts_def Let_def split: option.splits sum.splits)
next
  case GET_product
  then show ?thesis using assms(1)
    by (simp add: handler_def getProduct_def Let_def split: option.splits)
next
  case POST_products
  with assms(2) have "is_string (body r ''name'') \<and> is_string (body r ''category'')"
    by (simp add: valid_body_strings)
  then have "is_string ((([''id'' \<mapsto> JStr (uuidv4 e)] ++ body r)(''inStock'' \<mapsto> v)) ''name'')
           \<and> is_string ((([''id'' \<mapsto> JStr (uuidv4 e)] ++ body r)(''inStock'' \<mapsto> v)) ''category'')" for v
    by (auto simp: is_string_def map_add_def split: option.splits)
  with POST_products assms(1) show ?thesis
    by (simp add: handler_def createProduct_def Let_def store_ok_def)
next
  case PUT_product
  with assms(2) have b: "is_string (body r ''name'') \<and> is_string (body r ''category'')"
    by (simp add: valid_body_strings)
  have "is_string (((old ++ body r)(''id'' \<mapsto> v)) ''name'')
      \<and> is_string (((old ++ body r)(''id'' \<mapsto> v)) ''category'')" for old v
    using b by (auto simp: is_string_def map_add_def split: option.splits)
  with PUT_product assms(1) show ?thesis
    by (auto simp: handler_def updateProduct_def Let_def store_ok_def split: option.splits
          dest!: set_update_subset_insert [THEN subsetD])
next
  case DELETE_product
  then show ?thesis using assms(1)
    by (simp add: handler_def deleteProduct_def Let_def store_ok_def)
qed

lemma app_store_ok:
  assumes "store_ok store"
  shows "store_ok (new_store (app e store r))"
proof (cases "route r = POST_products \<or> route r = PUT_product")
  case True
  from app_write_status_cases [OF True, of e store]
  consider "authenticateMiddleware (API_KEY e) r \<noteq> None"
    | "authenticateMiddleware (API_KEY e) r = None" "validateProduct r \<noteq> None"
    | "authenticateMiddleware (API_KEY e) r = None" "validateProduct r = None"
    by blast
  then show ?thesis
  proof cases
    case 1
    with True assms show ?thesis
      by (auto simp: app_def middlewares_def)
  next
    case 2
    with True assms show ?thesis
      by (auto simp: app_def middlewares_def)
  next
    case 3
    from 3(2) have "validation_errors (body r) = []"
      by (simp add: validateProduct_def Let_def split: if_splits)
    with assms have "store_ok (snd (handler e (route r) store r))"
      by (intro handler_store_ok) simp_all
    with True 3 show ?thesis
      by (auto simp: app_def middlewares_def split: prod.splits sum.splits)
  qed
next
  case False
  with assms have "store_ok (snd (handler e (route r) store r))"
    by (intro handler_store_ok) simp_all
  with False show ?thesis
    by (cases "route r") (auto simp: app_def middlewares_def split: prod.splits sum.splits)
qed

lemma seed_store_ok: "store_ok seed_products"
  by (simp add: store_ok_def seed_products_def is_string_def)

lemma reachable_store_ok: "reachable store \<Longrightarrow> store_ok store"
  by (induction rule: reachable.induct) (simp_all add: seed_store_ok app_store_ok)

lemma reachable_categories:
  "reachable store \<Longrightarrow> \<forall>p\<in>set store. is_string (p ''category'')"
  using reachable_store_ok by (auto simp: store_ok_def)

section \<open>Listing and pagination\<close>


























end
